theory Spec2Isabelle
  imports Main "HOL-Library.Sublist"
begin

section \<open>Data model of downloader.py\<close>

text \<open>
  Python strings are modelled as \<open>string\<close>; one \<open>char\<close> stands for one code point
  below 128 (URLs, flags and paths are ASCII text here). A \<open>pathlib.Path\<close> is
  represented by its textual form \<open>str(path)\<close>. Exceptions are values: every
  \<open>raise\<close> of the source is an \<open>Inl\<close> branch of the model.
\<close>

datatype Platform =
  YOUTUBE | INSTAGRAM | TIKTOK | TWITTER | FACEBOOK | DAILYMOTION | VIMEO | UNKNOWN

datatype DownloadType = VIDEO | AUDIO | POST | STORY | PROFILE_PIC | HIGHLIGHTS

type_synonym path = string

record DownloadConfig =
  url :: string
  platform :: Platform
  download_type :: "DownloadType option"
  output_dir :: path
  quality :: string
  format :: "string option"
  cookies_file :: "path option"
  metadata :: bool
  subtitles :: bool
  thumbnail :: bool
  sponsorblock :: bool
  concurrent_fragments :: int
  retries :: int
  rate_limit :: "string option"
  proxy :: "string option"

text \<open>The subclasses of Python's \<open>Exception\<close> that this code raises or receives
  from the library calls it makes, each with its message.\<close>

datatype py_exception =
  ValueError string | FileNotFoundError string | OSError string

section \<open>String operations of the Python runtime\<close>

definition ascii_lowercase :: string where
  "ascii_lowercase = ''abcdefghijklmnopqrstuvwxyz''"

definition ascii_uppercase :: string where
  "ascii_uppercase = ''ABCDEFGHIJKLMNOPQRSTUVWXYZ''"

definition digits :: string where
  "digits = ''0123456789''"

text \<open>\<open>s.lower()\<close>, on ASCII text.\<close>

definition lower_char :: "char \<Rightarrow> char" where
  "lower_char c =
     (case map_of (zip ascii_uppercase ascii_lowercase) c of Some d \<Rightarrow> d | None \<Rightarrow> c)"

definition lower :: "string \<Rightarrow> string" where
  "lower s = map lower_char s"

text \<open>\<open>key in s\<close> for strings: \<open>key\<close> occurs in \<open>s\<close> as a contiguous block.\<close>

fun str_in :: "string \<Rightarrow> string \<Rightarrow> bool" where
  "str_in key [] = (key = [])"
| "str_in key (c # cs) = (prefix key (c # cs) \<or> str_in key cs)"

section \<open>The network location of \<open>urllib.parse.urlparse\<close>\<close>

text \<open>
  \<open>detect_platform\<close> reads \<open>urlparse(url).netloc\<close>. The model follows CPython's
  \<open>urlsplit\<close> as far as the \<open>netloc\<close> field goes: leading control characters and
  spaces are stripped, tab, CR and LF are removed, a well-formed scheme and its colon
  are cut off, and if the rest starts with two slashes the netloc runs up to the next
  slash, question mark or hash. A netloc with an unmatched square bracket raises
  \<open>ValueError\<close>; a bracketed host is handed to the library's address check, which is
  the parameter \<open>host_ok\<close> (it accepts everything before CPython 3.11.4; the text of
  its error is not modelled). The last check of \<open>urlsplit\<close>, on the NFKC form of the
  netloc, passes every ASCII netloc and has no counterpart here.
\<close>

definition WHATWG_C0_CONTROL_OR_SPACE :: string where
  "WHATWG_C0_CONTROL_OR_SPACE =
      [CHR 0x00, CHR 0x01, CHR 0x02, CHR 0x03, CHR 0x04, CHR 0x05, CHR 0x06, CHR 0x07,
       CHR 0x08, CHR 0x09, CHR 0x0A, CHR 0x0B, CHR 0x0C, CHR 0x0D, CHR 0x0E, CHR 0x0F,
       CHR 0x10, CHR 0x11, CHR 0x12, CHR 0x13, CHR 0x14, CHR 0x15, CHR 0x16, CHR 0x17,
       CHR 0x18, CHR 0x19, CHR 0x1A, CHR 0x1B, CHR 0x1C, CHR 0x1D, CHR 0x1E, CHR 0x1F,
       CHR 0x20]"

definition UNSAFE_URL_BYTES_TO_REMOVE :: string where
  "UNSAFE_URL_BYTES_TO_REMOVE = [CHR 0x09, CHR 0x0D, CHR 0x0A]"

definition scheme_chars :: string where
  "scheme_chars = ascii_lowercase @ ascii_uppercase @ digits @ ''+-.''"

definition strip_scheme :: "string \<Rightarrow> string" where
  "strip_scheme u =
     (let pre = takeWhile (\<lambda>c. c \<noteq> CHR '':'') u in
      if length pre < length u \<and> pre \<noteq> [] \<and> hd pre \<in> set (ascii_lowercase @ ascii_uppercase)
         \<and> list_all (\<lambda>c. c \<in> set scheme_chars) pre
      then drop (length pre + 1) u
      else u)"

definition splitnetloc :: "string \<Rightarrow> string" where
  "splitnetloc u =
     takeWhile (\<lambda>c. c \<noteq> CHR ''/'' \<and> c \<noteq> CHR ''?'' \<and> c \<noteq> CHR ''#'') (drop 2 u)"

definition bracketed_host :: "string \<Rightarrow> string" where
  "bracketed_host n =
     takeWhile (\<lambda>c. c \<noteq> CHR '']'') (drop 1 (dropWhile (\<lambda>c. c \<noteq> CHR ''['') n))"

definition urlparse_netloc :: "(string \<Rightarrow> bool) \<Rightarrow> string \<Rightarrow> py_exception + string" where
  "urlparse_netloc host_ok u0 =
     (let u1 = dropWhile (\<lambda>c. c \<in> set WHATWG_C0_CONTROL_OR_SPACE) u0;
          u2 = filter (\<lambda>c. c \<notin> set UNSAFE_URL_BYTES_TO_REMOVE) u1;
          u3 = strip_scheme u2
      in if take 2 u3 = ''//'' then
           (let netloc = splitnetloc u3;
                lb = (CHR ''['' \<in> set netloc);
                rb = (CHR '']'' \<in> set netloc)
            in if (lb \<and> \<not> rb) \<or> (rb \<and> \<not> lb) then Inl (ValueError ''Invalid IPv6 URL'')
               else if lb \<and> rb \<and> \<not> host_ok (bracketed_host netloc)
               then Inl (ValueError ''invalid bracketed host'')
               else Inr netloc)
         else Inr [])"

section \<open>Platform detection\<close>

text \<open>The class attribute \<open>SUPPORTED_PLATFORMS\<close>: a dict literal, iterated in the
  order it is written.\<close>

definition SUPPORTED_PLATFORMS :: "(string \<times> Platform) list" where
  "SUPPORTED_PLATFORMS =
    [(''youtube.com'', YOUTUBE),
     (''youtu.be'', YOUTUBE),
     (''instagram.com'', INSTAGRAM),
     (''tiktok.com'', TIKTOK),
     (''twitter.com'', TWITTER),
     (''x.com'', TWITTER),
     (''facebook.com'', FACEBOOK),
     (''fb.watch'', FACEBOOK),
     (''dailymotion.com'', DAILYMOTION),
     (''dai.ly'', DAILYMOTION),
     (''vimeo.com'', VIMEO)]"

text \<open>The loop shared by both detectors: the first key that occurs in \<open>s\<close> decides.\<close>

fun first_match :: "(string \<times> Platform) list \<Rightarrow> string \<Rightarrow> Platform" where
  "first_match [] s = UNKNOWN"
| "first_match ((key, p) # items) s = (if str_in key s then p else first_match items s)"

text \<open>\<open>Downloader.detect_platform\<close> (downloader.py): the keys are looked for in the
  lowercased netloc.\<close>

definition detect_platform :: "(string \<Rightarrow> bool) \<Rightarrow> string \<Rightarrow> py_exception + Platform" where
  "detect_platform host_ok u =
     (case urlparse_netloc host_ok u of
        Inl e \<Rightarrow> Inl e
      | Inr netloc \<Rightarrow> Inr (first_match SUPPORTED_PLATFORMS (lower netloc)))"

text \<open>\<open>detect_platform\<close> of api.py: the keys are looked for in the whole URL, as given.\<close>

definition api_detect_platform :: "string \<Rightarrow> Platform" where
  "api_detect_platform u = first_match SUPPORTED_PLATFORMS u"

section \<open>The file system\<close>

text \<open>
  The code asks the disk whether a path exists and creates the output directory. The
  disk is a value: the paths present, and the paths whose creation the operating
  system refuses (\<open>mkdir\<close> raises an \<open>OSError\<close> there).
\<close>

record filesystem =
  present :: "path set"
  mkdir_refused :: "path set"

definition path_exists :: "filesystem \<Rightarrow> path \<Rightarrow> bool" where
  "path_exists disk p = (p \<in> present disk)"

text \<open>The proper ancestors of a relative or absolute path, shortest first: what
  \<open>parents=True\<close> creates on the way.\<close>

fun ancestors :: "string \<Rightarrow> string \<Rightarrow> path list" where
  "ancestors seen [] = []"
| "ancestors seen (c # cs) =
     (if c = CHR ''/'' \<and> seen \<noteq> [] then [seen] else []) @ ancestors (seen @ [c]) cs"

text \<open>\<open>p.mkdir(parents=True, exist_ok=True)\<close>\<close>

definition mkdir :: "filesystem \<Rightarrow> path \<Rightarrow> py_exception + filesystem" where
  "mkdir disk p =
     (if p \<in> mkdir_refused disk then Inl (OSError (''cannot create directory: '' @ p))
      else Inr (disk\<lparr>present := present disk \<union> set (ancestors [] p) \<union> {p}\<rparr>))"

section \<open>Validation\<close>

text \<open>\<open>Downloader.validate_config\<close>: the result and the disk it leaves behind.\<close>

definition validate_config ::
  "filesystem \<Rightarrow> DownloadConfig \<Rightarrow> (py_exception + unit) \<times> filesystem" where
  "validate_config disk c =
     (if url c = [] then (Inl (ValueError ''URL cannot be empty''), disk)
      else if platform c = UNKNOWN then (Inl (ValueError (''Unsupported URL: '' @ url c)), disk)
      else
        (case (if \<not> path_exists disk (output_dir c) then mkdir disk (output_dir c)
               else Inr disk) of
           Inl e \<Rightarrow> (Inl e, disk)
         | Inr disk' \<Rightarrow>
             (case cookies_file c of
                None \<Rightarrow> (Inr (), disk')
              | Some p \<Rightarrow>
                  if \<not> path_exists disk' p
                  then (Inl (FileNotFoundError (''Cookies file not found: '' @ p)), disk')
                  else (Inr (), disk'))))"

section \<open>Building the yt-dlp command\<close>

text \<open>\<open>str(n)\<close> for an integer.\<close>

fun str_nat :: "nat \<Rightarrow> string" where
  "str_nat n =
     (if n < 10 then [digits ! n] else str_nat (n div 10) @ [digits ! (n mod 10)])"

declare str_nat.simps [simp del]

definition str_int :: "int \<Rightarrow> string" where
  "str_int i = (if i < 0 then CHR ''-'' # str_nat (nat (- i)) else str_nat (nat i))"

text \<open>\<open>os.path.join\<close> (posixpath): a component that starts with a slash restarts the
  path; a separator is added unless the path so far is empty or ends with one.\<close>

definition join_step :: "path \<Rightarrow> string \<Rightarrow> path" where
  "join_step p b =
     (if prefix ''/'' b then b
      else if p = [] \<or> last p = CHR ''/'' then p @ b
      else p @ ''/'' @ b)"

definition os_path_join :: "path \<Rightarrow> string list \<Rightarrow> path" where
  "os_path_join a bs = foldl join_step a bs"

text \<open>The truth value of an \<open>Optional[str]\<close> in a condition: neither \<open>None\<close> nor
  the empty string.\<close>

fun truthy :: "string option \<Rightarrow> bool" where
  "truthy None = False"
| "truthy (Some s) = (s \<noteq> [])"

definition YT_DLP_PATH :: string where
  "YT_DLP_PATH = ''yt-dlp''"

definition COOKIES_FILE :: path where
  "COOKIES_FILE = ''insta.txt''"

definition templates :: "(Platform \<times> string) list" where
  "templates =
    [(YOUTUBE, ''%(title)s [%(id)s].%(ext)s''),
     (INSTAGRAM, ''%(uploader)s - %(title)s [%(id)s].%(ext)s''),
     (TIKTOK, ''%(uploader)s - %(title)s [%(id)s].%(ext)s''),
     (TWITTER, ''%(uploader)s - %(title)s [%(id)s].%(ext)s''),
     (FACEBOOK, ''%(title)s [%(id)s].%(ext)s''),
     (DAILYMOTION, ''%(title)s [%(id)s].%(ext)s''),
     (VIMEO, ''%(title)s [%(id)s].%(ext)s'')]"

text \<open>\<open>d.get(key, default)\<close> on a dict literal.\<close>

definition dict_get :: "('k \<times> 'v) list \<Rightarrow> 'k \<Rightarrow> 'v \<Rightarrow> 'v" where
  "dict_get d k dflt = (case map_of d k of Some v \<Rightarrow> v | None \<Rightarrow> dflt)"

definition get_output_template :: "DownloadConfig \<Rightarrow> string" where
  "get_output_template c =
     (let base_template = dict_get templates (platform c) ''%(title)s [%(id)s].%(ext)s'' in
      if download_type c = Some AUDIO
      then os_path_join (output_dir c) [''Audio'', base_template]
      else os_path_join (output_dir c) [''Video'', base_template])"

definition format_map :: "(Platform \<times> string) list" where
  "format_map =
    [(YOUTUBE, ''bestvideo[ext=mp4]+bestaudio[ext=m4a]/best[ext=mp4]/best''),
     (INSTAGRAM, ''best''),
     (TIKTOK, ''best''),
     (TWITTER, ''best''),
     (FACEBOOK, ''best''),
     (DAILYMOTION, ''best''),
     (VIMEO, ''best'')]"

definition get_default_format :: "DownloadConfig \<Rightarrow> string" where
  "get_default_format c =
     (if download_type c = Some AUDIO then ''bestaudio/best''
      else dict_get format_map (platform c) ''best'')"

text \<open>The cookie step of \<open>build_yt_dlp_command\<close>, in the two stages of the source:
  first the local variable \<open>cookies_file\<close> is chosen, then the flags are emitted.\<close>

definition chosen_cookies_file :: "filesystem \<Rightarrow> DownloadConfig \<Rightarrow> path option" where
  "chosen_cookies_file disk c =
     (if (case cookies_file c of None \<Rightarrow> False | Some p \<Rightarrow> path_exists disk p)
      then cookies_file c
      else if platform c = YOUTUBE \<and> path_exists disk COOKIES_FILE then Some COOKIES_FILE
      else None)"

definition cookie_args :: "filesystem \<Rightarrow> DownloadConfig \<Rightarrow> string list" where
  "cookie_args disk c =
     (case chosen_cookies_file disk c of
        Some p \<Rightarrow> [''--cookies'', p]
      | None \<Rightarrow>
          if platform c = INSTAGRAM then [''--cookies-from-browser'', ''chrome''] else [])"

text \<open>\<open>Downloader.build_yt_dlp_command\<close>: the list is extended step by step, as in
  the source.\<close>

definition build_yt_dlp_command :: "filesystem \<Rightarrow> DownloadConfig \<Rightarrow> string list" where
  "build_yt_dlp_command disk c =
     [YT_DLP_PATH]
     @ [''--no-playlist'',
        ''--ignore-errors'',
        ''--retries'', str_int (retries c),
        ''--concurrent-fragments'', str_int (concurrent_fragments c),
        ''--progress'',
        ''--newline'',
        ''--console-title'']
     @ [''-o'', get_output_template c]
     @ (if truthy (format c) then [''-f'', the (format c)]
        else [''-f'', get_default_format c])
     @ (if truthy (rate_limit c) then [''--limit-rate'', the (rate_limit c)] else [])
     @ (if truthy (proxy c) then [''--proxy'', the (proxy c)] else [])
     @ cookie_args disk c
     @ [url c]"

section \<open>Running one download\<close>

text \<open>
  The external engine is a black box: \<open>subprocess.Popen\<close> on a command either raises
  (the executable is missing, permission is denied) or gives a process with its
  output lines, its exit status and its error text. Log records are collected in the
  order they are written.
\<close>

record process =
  stdout :: "string list"
  returncode :: int
  stderr :: string

type_synonym popen = "string list \<Rightarrow> py_exception + process"

datatype level = INFO | ERROR

type_synonym log = "(level \<times> string) list"

fun exception_str :: "py_exception \<Rightarrow> string" where
  "exception_str (ValueError m) = m"
| "exception_str (FileNotFoundError m) = m"
| "exception_str (OSError m) = m"

definition whitespace :: string where
  "whitespace =
     [CHR 0x09, CHR 0x0A, CHR 0x0B, CHR 0x0C, CHR 0x0D, CHR 0x1C, CHR 0x1D, CHR 0x1E,
      CHR 0x1F, CHR 0x20]"

text \<open>\<open>s.strip()\<close>\<close>

definition strip :: "string \<Rightarrow> string" where
  "strip s =
     rev (dropWhile (\<lambda>c. c \<in> set whitespace) (rev (dropWhile (\<lambda>c. c \<in> set whitespace) s)))"

text \<open>\<open>sep.join(xs)\<close>\<close>

fun str_join :: "string \<Rightarrow> string list \<Rightarrow> string" where
  "str_join sep [] = []"
| "str_join sep [x] = x"
| "str_join sep (x # y # ys) = x @ sep @ str_join sep (y # ys)"

text \<open>The body of the \<open>try\<close> block of \<open>Downloader.download\<close>: the value it returns
  or the exception that leaves it, with the records logged on the way.\<close>

definition download_try :: "popen \<Rightarrow> string list \<Rightarrow> (py_exception + bool) \<times> log" where
  "download_try run cmd =
     (case run cmd of
        Inl e \<Rightarrow> (Inl e, [])
      | Inr pr \<Rightarrow>
          (let progress = map (\<lambda>l. (INFO, l)) (filter (\<lambda>l. l \<noteq> []) (map strip (stdout pr))) in
           if returncode pr \<noteq> 0
           then (Inr False, progress @ [(ERROR, ''Download failed with error: '' @ stderr pr)])
           else (Inr True, progress)))"

text \<open>\<open>Downloader.download\<close>: the command is built and logged, the body runs, and
  the handler turns an exception of the body into \<open>False\<close>.\<close>

definition download ::
  "popen \<Rightarrow> filesystem \<Rightarrow> DownloadConfig \<Rightarrow> (py_exception + bool) \<times> log" where
  "download run disk c =
     (let cmd = build_yt_dlp_command disk c;
          started = [(INFO, ''Executing command: '' @ str_join '' '' cmd)]
      in case download_try run cmd of
           (Inr b, lg) \<Rightarrow> (Inr b, started @ lg)
         | (Inl e, lg) \<Rightarrow>
             (Inr False,
              started @ lg @ [(ERROR, ''Unexpected error during download: '' @ exception_str e)]))"

section \<open>Batch downloads\<close>

text \<open>What surrounds one unit of work: the library's check of bracketed hosts, the
  engine, and the disk at the moment the unit runs.\<close>

record environment =
  check_host :: "string \<Rightarrow> bool"
  engine :: popen
  files :: filesystem

text \<open>\<open>BatchDownloader._download_single\<close>: the per-URL configuration is derived,
  \<open>Downloader(download_config)\<close> validates it, and the download runs.\<close>

definition download_single ::
  "environment \<Rightarrow> string \<Rightarrow> DownloadConfig \<Rightarrow> py_exception + bool" where
  "download_single env u config =
     (case (if platform config \<noteq> UNKNOWN then Inr (platform config)
            else detect_platform (check_host env) u) of
        Inl e \<Rightarrow> Inl e
      | Inr p \<Rightarrow>
          (let download_config = config\<lparr>url := u, platform := p\<rparr> in
           case validate_config (files env) download_config of
             (Inl e, _) \<Rightarrow> Inl e
           | (Inr _, disk') \<Rightarrow> fst (download (engine env) disk' download_config)))"

text \<open>A Python dict keeps its keys in the order of their first insertion;
  \<open>results[k] = v\<close> replaces the value of a key that is there and appends a new key.\<close>

fun dict_set :: "('k \<times> 'v) list \<Rightarrow> 'k \<Rightarrow> 'v \<Rightarrow> ('k \<times> 'v) list" where
  "dict_set [] k v = [(k, v)]"
| "dict_set ((k', v') # d) k v = (if k' = k then (k, v) # d else (k', v') # dict_set d k v)"

text \<open>The body of the loop over \<open>as_completed(futures)\<close>: the result of the future is
  stored under its URL, \<open>False\<close> if the future holds an exception.\<close>

definition record_result ::
  "(string \<times> bool) list \<Rightarrow> string \<times> (py_exception + bool) \<Rightarrow> (string \<times> bool) list" where
  "record_result results fut =
     (case snd fut of
        Inr b \<Rightarrow> dict_set results (fst fut) b
      | Inl e \<Rightarrow> dict_set results (fst fut) False)"

text \<open>
  \<open>BatchDownloader.download_batch\<close>. One future is submitted per element of \<open>urls\<close>;
  \<open>unit i u\<close> is what the \<open>i\<close>-th future ends with. The thread pool decides the
  order in which \<open>as_completed\<close> hands the futures over: \<open>completed\<close> lists the
  submission indices in that order.
\<close>

definition submit_all ::
  "(nat \<Rightarrow> string \<Rightarrow> py_exception + bool) \<Rightarrow> string list \<Rightarrow> (string \<times> (py_exception + bool)) list" where
  "submit_all unit urls = map (\<lambda>(i, u). (u, unit i u)) (enumerate 0 urls)"

definition download_batch ::
  "(nat \<Rightarrow> string \<Rightarrow> py_exception + bool) \<Rightarrow> string list \<Rightarrow> nat list \<Rightarrow> (string \<times> bool) list" where
  "download_batch unit urls completed =
     foldl record_result [] (map (\<lambda>i. submit_all unit urls ! i) completed)"

text \<open>The batch as \<open>main\<close> runs it: every unit is \<open>_download_single\<close> in the
  environment it meets.\<close>

definition download_batch_in ::
  "(nat \<Rightarrow> environment) \<Rightarrow> string list \<Rightarrow> DownloadConfig \<Rightarrow> nat list \<Rightarrow> (string \<times> bool) list" where
  "download_batch_in envs urls config completed =
     download_batch (\<lambda>i u. download_single (envs i) u config) urls completed"


section \<open>The summary of \<open>main\<close>\<close>

definition successful :: "(string \<times> bool) list \<Rightarrow> nat" where
  "successful results = length (filter (\<lambda>r. r) (map snd results))"

text \<open>The URLs listed under "Failed URLs", in the order of the loop over
  \<open>results.items()\<close>.\<close>

definition failed_urls :: "(string \<times> bool) list \<Rightarrow> string list" where
  "failed_urls results = map fst (filter (\<lambda>(u, success). \<not> success) results)"

definition summary :: "(string \<times> bool) list \<Rightarrow> log \<times> nat" where
  "summary results =
     ([(INFO, CHR 0x0A # ''Download summary:''),
       (INFO, ''Total URLs: '' @ str_nat (length results)),
       (INFO, ''Successful: '' @ str_nat (successful results)),
       (INFO, ''Failed: '' @ str_nat (length results - successful results))]
      @ (if successful results < length results
         then (INFO, CHR 0x0A # ''Failed URLs:'') # map (\<lambda>u. (INFO, ''- '' @ u)) (failed_urls results)
         else []),
      if successful results < length results then 1 else 0)"

section \<open>Notions used to state the properties\<close>

text \<open>The dataclass defaults: \<open>DownloadConfig(url, platform)\<close> with the working
  directory as \<open>output_dir\<close>.\<close>

definition default_config :: "string \<Rightarrow> Platform \<Rightarrow> path \<Rightarrow> DownloadConfig" where
  "default_config u p cwd =
     \<lparr>url = u, platform = p, download_type = None, output_dir = cwd, quality = ''best'',
      format = None, cookies_file = None, metadata = True, subtitles = False,
      thumbnail = True, sponsorblock = False, concurrent_fragments = 1, retries = 10,
      rate_limit = None, proxy = None\<rparr>"

definition empty_disk :: filesystem where
  "empty_disk = \<lparr>present = {}, mkdir_refused = {}\<rparr>"

text \<open>An engine for the examples: it exits with status 1 on one URL and with
  status 0 on every other command.\<close>

definition flaky_engine :: popen where
  "flaky_engine cmd =
     (if last cmd = ''https://vimeo.com/bad''
      then Inr \<lparr>stdout = [], returncode = 1, stderr = ''ERROR: not found''\<rparr>
      else Inr \<lparr>stdout = [], returncode = 0, stderr = []\<rparr>)"



section \<open>Auxiliary facts\<close>

subsection \<open>Strings and numerals\<close>

lemma str_in_iff: "str_in key s \<longleftrightarrow> (\<exists>pre post. s = pre @ key @ post)"
proof (induction s)
  case Nil
  then show ?case by auto
next
  case (Cons c cs)
  show ?case
  proof
    assume "str_in key (c # cs)"
    then consider "prefix key (c # cs)" | "str_in key cs" by auto
    then show "\<exists>pre post. c # cs = pre @ key @ post"
    proof cases
      case 1
      then obtain post where "c # cs = key @ post" by (auto simp: prefix_def)
      then have "c # cs = [] @ key @ post" by simp
      then show ?thesis by blast
    next
      case 2
      with Cons obtain pre post where "cs = pre @ key @ post" by auto
      then have "c # cs = (c # pre) @ key @ post" by simp
      then show ?thesis by blast
    qed
  next
    assume "\<exists>pre post. c # cs = pre @ key @ post"
    then obtain pre post where eq: "c # cs = pre @ key @ post" by auto
    show "str_in key (c # cs)"
    proof (cases pre)
      case Nil
      with eq have "prefix key (c # cs)" by (simp add: prefix_def)
      then show ?thesis by simp
    next
      case (Cons a pre')
      with eq have "cs = pre' @ key @ post" by simp
      with Cons.IH have "str_in key cs" by blast
      then show ?thesis by simp
    qed
  qed
qed

lemma str_nat_digits: "set (str_nat n) \<subseteq> set digits"
proof (induction n rule: str_nat.induct)
  case (1 n)
  have d: "\<And>k. k < 10 \<Longrightarrow> digits ! k \<in> set digits"
    by (rule nth_mem) (simp add: digits_def)
  show ?case
  proof (cases "n < 10")
    case True
    then show ?thesis using d[of n] by (subst str_nat.simps) simp
  next
    case False
    then show ?thesis using 1 d[of "n mod 10"] by (subst str_nat.simps) simp
  qed
qed

lemma str_int_chars: "set (str_int i) \<subseteq> insert (CHR ''-'') (set digits)"
  using str_nat_digits[of "nat i"] str_nat_digits[of "nat (- i)"]
  by (auto simp: str_int_def)

lemma str_int_not_f: "str_int i \<noteq> ''-f''"
proof
  assume "str_int i = ''-f''"
  then have "CHR ''f'' \<in> set (str_int i)" by simp
  with str_int_chars[of i] show False by (auto simp: digits_def)
qed


subsection \<open>The pieces of the command\<close>

lemma percent_in_join_step: "CHR ''%'' \<in> set b \<Longrightarrow> CHR ''%'' \<in> set (join_step p b)"
  by (simp add: join_step_def)

lemma percent_in_template: "CHR ''%'' \<in> set (get_output_template c)"
proof -
  have "CHR ''%'' \<in> set (dict_get templates (platform c) ''%(title)s [%(id)s].%(ext)s'')"
    by (cases "platform c") (simp_all add: dict_get_def templates_def)
  then show ?thesis
    by (simp add: get_output_template_def os_path_join_def Let_def percent_in_join_step)
qed

lemma template_not_f: "get_output_template c \<noteq> ''-f''"
proof
  assume "get_output_template c = ''-f''"
  with percent_in_template[of c] show False by simp
qed


lemma default_format_table:
  "get_default_format c =
      (if download_type c = Some AUDIO then ''bestaudio/best''
       else if platform c = YOUTUBE
       then ''bestvideo[ext=mp4]+bestaudio[ext=m4a]/best[ext=mp4]/best''
       else ''best'')"
  by (cases "platform c") (simp_all add: get_default_format_def dict_get_def format_map_def)




subsection \<open>The first matching table entry\<close>


lemmas url_eval = detect_platform_def urlparse_netloc_def strip_scheme_def splitnetloc_def
  lower_def lower_char_def ascii_lowercase_def ascii_uppercase_def digits_def scheme_chars_def
  WHATWG_C0_CONTROL_OR_SPACE_def UNSAFE_URL_BYTES_TO_REMOVE_def SUPPORTED_PLATFORMS_def

subsection \<open>The result dict of a batch\<close>

















text \<open>The summary lists failed URLs exactly when there are any.\<close>

lemma filter_shorter_iff: "length (filter P xs) < length xs \<longleftrightarrow> (\<exists>x \<in> set xs. \<not> P x)"
proof (induction xs)
  case Nil
  then show ?case by simp
next
  case (Cons x xs)
  have "length (filter P xs) \<le> length xs" by simp
  with Cons show ?case by auto
qed

lemma summary_failed_section:
  "successful results < length results \<longleftrightarrow> failed_urls results \<noteq> []"
proof -
  have "successful results < length results \<longleftrightarrow> (\<exists>r \<in> set results. \<not> snd r)"
    using filter_shorter_iff[of "\<lambda>r. r" "map snd results"] by (simp add: successful_def)
  also have "\<dots> \<longleftrightarrow> failed_urls results \<noteq> []"
    by (force simp: failed_urls_def filter_empty_conv)
  finally show ?thesis .
qed

section \<open>Platform detection: the claims\<close>




text \<open>
  C9. The detector of api.py and the detector of downloader.py disagree. The first
  looks for the keys in the whole URL as typed, the second in the lowercased netloc:
  a host in capitals is known to the core and unknown to the HTTP layer, and a key in
  the query string is a platform for the HTTP layer and nothing for the core.
\<close>

theorem api_detect_platform_differs:
  "api_detect_platform ''https://YOUTUBE.com/watch?v=abc'' = UNKNOWN
   \<and> detect_platform ok ''https://YOUTUBE.com/watch?v=abc'' = Inr YOUTUBE
   \<and> api_detect_platform ''https://example.org/?ref=youtube.com'' = YOUTUBE
   \<and> detect_platform ok ''https://example.org/?ref=youtube.com'' = Inr UNKNOWN"
  by (simp add: api_detect_platform_def url_eval)

section \<open>Validation: the claims\<close>

text \<open>
  C6. A configuration with a non-empty URL and platform \<open>UNKNOWN\<close> is rejected with
  the "Unsupported URL" error and the disk is left as it was. Conversely, whenever
  validation changes the disk, the URL was non-empty, the platform was known and the
  output directory did not exist: the directory is created only after the platform
  check has passed.
\<close>

theorem unknown_platform_rejected_before_mkdir:
  "(url c \<noteq> [] \<and> platform c = UNKNOWN \<longrightarrow>
      validate_config d c = (Inl (ValueError (''Unsupported URL: '' @ url c)), d))
   \<and> (snd (validate_config d c) \<noteq> d \<longrightarrow>
      url c \<noteq> [] \<and> platform c \<noteq> UNKNOWN \<and> \<not> path_exists d (output_dir c))"
  by (auto simp: validate_config_def split: sum.splits option.splits if_splits)

text \<open>On an empty disk the unknown platform leaves \<open>out/new\<close> uncreated; the same
  configuration with a known platform creates it with its parent.\<close>

theorem unknown_platform_rejected_before_mkdir_witness:
  "validate_config empty_disk (default_config ''https://example.org/v'' UNKNOWN ''out/new'')
     = (Inl (ValueError ''Unsupported URL: https://example.org/v''), empty_disk)
   \<and> validate_config empty_disk (default_config ''https://vimeo.com/1'' VIMEO ''out/new'')
     = (Inr (), empty_disk\<lparr>present := {''out'', ''out/new''}\<rparr>)"
proof -
  have "validate_config empty_disk (default_config ''https://vimeo.com/1'' VIMEO ''out/new'')
     = (Inr (), empty_disk\<lparr>present := {''out'', ''out/new''}\<rparr>)"
    by (simp add: validate_config_def default_config_def empty_disk_def path_exists_def mkdir_def
        insert_commute)
  then show ?thesis
    using unknown_platform_rejected_before_mkdir
      [of "default_config ''https://example.org/v'' UNKNOWN ''out/new''" empty_disk]
    by (simp add: default_config_def)
qed

section \<open>The command builder: the claims\<close>

text \<open>
  C2, as the code has it. The command is a function of the configuration and of
  two facts about the disk: whether the default cookie file \<open>insta.txt\<close> exists and
  whether the configured \<open>cookies_file\<close> exists. Two disks that agree on these give
  the same argument list for the same configuration; the builder itself changes
  nothing on the disk (it returns the list only).
\<close>

theorem build_depends_on_cookie_files_only:
  assumes "path_exists d1 COOKIES_FILE = path_exists d2 COOKIES_FILE"
    and "\<forall>p. cookies_file c = Some p \<longrightarrow> path_exists d1 p = path_exists d2 p"
  shows "build_yt_dlp_command d1 c = build_yt_dlp_command d2 c"
  using assms
  by (cases "cookies_file c")
    (simp_all add: build_yt_dlp_command_def cookie_args_def chosen_cookies_file_def)

text \<open>Two disks that differ in the output directory only.\<close>

theorem build_depends_on_cookie_files_only_witness:
  "build_yt_dlp_command (empty_disk\<lparr>present := {''insta.txt'', ''downloads''}\<rparr>)
      (default_config ''https://youtube.com/watch?v=abc'' YOUTUBE ''downloads'')
   = build_yt_dlp_command (empty_disk\<lparr>present := {''insta.txt''}\<rparr>)
      (default_config ''https://youtube.com/watch?v=abc'' YOUTUBE ''downloads'')"
  using build_depends_on_cookie_files_only
      [of "empty_disk\<lparr>present := {''insta.txt'', ''downloads''}\<rparr>"
        "empty_disk\<lparr>present := {''insta.txt''}\<rparr>"
        "default_config ''https://youtube.com/watch?v=abc'' YOUTUBE ''downloads''"]
  by (simp add: path_exists_def COOKIES_FILE_def empty_disk_def default_config_def)

text \<open>The same YouTube configuration on a disk with and without \<open>insta.txt\<close>: the
  argument lists differ.\<close>

theorem build_varies_with_disk:
  "build_yt_dlp_command (empty_disk\<lparr>present := {''insta.txt''}\<rparr>)
      (default_config ''https://youtube.com/watch?v=abc'' YOUTUBE ''downloads'')
   \<noteq> build_yt_dlp_command empty_disk
      (default_config ''https://youtube.com/watch?v=abc'' YOUTUBE ''downloads'')"
  by (simp add: build_yt_dlp_command_def cookie_args_def chosen_cookies_file_def
      path_exists_def COOKIES_FILE_def empty_disk_def default_config_def)




text \<open>
  C5, as the code has it. The first \<open>-f\<close> of the command is followed by the
  configured format if that is a non-empty string; otherwise (no format, or the empty
  string) by \<open>bestaudio/best\<close> for type AUDIO on every platform, by the YouTube chain
  for YouTube with any other type or none, and by \<open>best\<close> in every other case.
\<close>

theorem format_selector:
  "\<exists>pre post.
     build_yt_dlp_command d c =
       pre @ ''-f'' #
         (let by_table =
                (if download_type c = Some AUDIO then ''bestaudio/best''
                 else if platform c = YOUTUBE
                 then ''bestvideo[ext=mp4]+bestaudio[ext=m4a]/best[ext=mp4]/best''
                 else ''best'')
          in case format c of
               None \<Rightarrow> by_table
             | Some f \<Rightarrow> if f \<noteq> [] then f else by_table) # post
     \<and> ''-f'' \<notin> set pre"
proof -
  let ?pre = "[YT_DLP_PATH, ''--no-playlist'', ''--ignore-errors'', ''--retries'',
      str_int (retries c), ''--concurrent-fragments'', str_int (concurrent_fragments c),
      ''--progress'', ''--newline'', ''--console-title'', ''-o'', get_output_template c]"
  let ?post = "(if truthy (rate_limit c) then [''--limit-rate'', the (rate_limit c)] else [])
     @ (if truthy (proxy c) then [''--proxy'', the (proxy c)] else [])
     @ cookie_args d c @ [url c]"
  have pre: "''-f'' \<notin> set ?pre"
    using str_int_not_f[of "retries c"] str_int_not_f[of "concurrent_fragments c"]
      template_not_f[of c]
    by (auto simp: YT_DLP_PATH_def)
  have "build_yt_dlp_command d c = ?pre @ ''-f'' #
      (let by_table =
                (if download_type c = Some AUDIO then ''bestaudio/best''
                 else if platform c = YOUTUBE
                 then ''bestvideo[ext=mp4]+bestaudio[ext=m4a]/best[ext=mp4]/best''
                 else ''best'')
          in case format c of
               None \<Rightarrow> by_table
             | Some f \<Rightarrow> if f \<noteq> [] then f else by_table) # ?post"
    unfolding build_yt_dlp_command_def default_format_table
    by (cases "format c") (simp_all add: Let_def)
  with pre show ?thesis by blast
qed

text \<open>A format set to the empty string is not passed on: the table decides.\<close>

theorem empty_format_uses_table:
  "format ((default_config ''https://vimeo.com/1'' VIMEO ''downloads'')\<lparr>format := Some []\<rparr>)
     = Some []
   \<and> build_yt_dlp_command empty_disk
        ((default_config ''https://vimeo.com/1'' VIMEO ''downloads'')\<lparr>format := Some []\<rparr>)
     = [''yt-dlp'', ''--no-playlist'', ''--ignore-errors'', ''--retries'', ''10'',
        ''--concurrent-fragments'', ''1'', ''--progress'', ''--newline'', ''--console-title'',
        ''-o'', ''downloads/Video/%(title)s [%(id)s].%(ext)s'', ''-f'', ''best'',
        ''https://vimeo.com/1'']"
  by (simp add: build_yt_dlp_command_def default_config_def empty_disk_def path_exists_def
      YT_DLP_PATH_def str_int_def str_nat.simps digits_def get_output_template_def
      os_path_join_def join_step_def dict_get_def templates_def get_default_format_def
      format_map_def cookie_args_def chosen_cookies_file_def)

text \<open>
  C10. Two configurations that agree on every field but \<open>quality\<close>, \<open>metadata\<close>,
  \<open>subtitles\<close>, \<open>thumbnail\<close> and \<open>sponsorblock\<close> give the same command on the same disk.
\<close>

theorem build_ignores_unused_fields:
  assumes "url c1 = url c2" and "platform c1 = platform c2"
    and "download_type c1 = download_type c2" and "output_dir c1 = output_dir c2"
    and "format c1 = format c2" and "cookies_file c1 = cookies_file c2"
    and "concurrent_fragments c1 = concurrent_fragments c2" and "retries c1 = retries c2"
    and "rate_limit c1 = rate_limit c2" and "proxy c1 = proxy c2"
  shows "build_yt_dlp_command d c1 = build_yt_dlp_command d c2"
  using assms
  by (simp add: build_yt_dlp_command_def get_output_template_def get_default_format_def
      cookie_args_def chosen_cookies_file_def)

theorem build_ignores_unused_fields_witness:
  "build_yt_dlp_command empty_disk
      ((default_config ''https://www.tiktok.com/@a/video/1'' TIKTOK ''downloads'')
         \<lparr>quality := ''1080p'', metadata := False, subtitles := True, thumbnail := False,
          sponsorblock := True\<rparr>)
   = build_yt_dlp_command empty_disk
      (default_config ''https://www.tiktok.com/@a/video/1'' TIKTOK ''downloads'')"
  using build_ignores_unused_fields
      [of "(default_config ''https://www.tiktok.com/@a/video/1'' TIKTOK ''downloads'')
             \<lparr>quality := ''1080p'', metadata := False, subtitles := True, thumbnail := False,
              sponsorblock := True\<rparr>"
        "default_config ''https://www.tiktok.com/@a/video/1'' TIKTOK ''downloads''" empty_disk]
  by (simp add: default_config_def)

section \<open>Running one download: the claim\<close>


section \<open>Batch downloads: the claims\<close>






section \<open>A batch from end to end\<close>

text \<open>
  Three URLs under a template with platform \<open>UNKNOWN\<close>, on an empty disk: the first
  downloads, the engine exits with status 1 on the second, and the third makes
  \<open>urlparse\<close> raise inside its unit. The futures complete in the order 1, 2, 0.
  The result has three entries, in completion order, and the exception is the
  \<open>False\<close> of its URL.
\<close>

lemma single_success:
  "download_single \<lparr>check_host = (\<lambda>h. True), engine = flaky_engine, files = empty_disk\<rparr>
     ''https://youtu.be/a'' (default_config [] UNKNOWN ''downloads'') = Inr True"
  by (simp add: download_single_def url_eval validate_config_def default_config_def
      empty_disk_def path_exists_def mkdir_def download_def download_try_def flaky_engine_def
      build_yt_dlp_command_def cookie_args_def chosen_cookies_file_def Let_def)

lemma single_nonzero_exit:
  "download_single \<lparr>check_host = (\<lambda>h. True), engine = flaky_engine, files = empty_disk\<rparr>
     ''https://vimeo.com/bad'' (default_config [] UNKNOWN ''downloads'') = Inr False"
  by (simp add: download_single_def url_eval validate_config_def default_config_def
      empty_disk_def path_exists_def mkdir_def download_def download_try_def flaky_engine_def
      build_yt_dlp_command_def cookie_args_def chosen_cookies_file_def Let_def)

lemma single_raises:
  "download_single \<lparr>check_host = (\<lambda>h. True), engine = flaky_engine, files = empty_disk\<rparr>
     ''http://['' (default_config [] UNKNOWN ''downloads'')
   = Inl (ValueError ''Invalid IPv6 URL'')"
  by (simp add: download_single_def url_eval default_config_def)

lemma batch_end_to_end:
  "download_batch_in
     (\<lambda>i. \<lparr>check_host = (\<lambda>h. True), engine = flaky_engine, files = empty_disk\<rparr>)
     [''https://youtu.be/a'', ''https://vimeo.com/bad'', ''http://['']
     (default_config [] UNKNOWN ''downloads'') [1, 2, 0]
   = [(''https://vimeo.com/bad'', False), (''http://['', False), (''https://youtu.be/a'', True)]"
  by (simp add: download_batch_in_def download_batch_def submit_all_def record_result_def
      single_success single_nonzero_exit single_raises)

end
